theory Spec2Isabelle
  imports Main
begin

section \<open>Data model\<close>

text \<open>
  The streaming endpoint of \<^verbatim>\<open>src/agui/main.py\<close> and the workflow node of
  \<^verbatim>\<open>src/agui/langgraph/research.py\<close>, as pure functions. A Python exception is a
  value of \<open>error\<close>; the async generator \<^verbatim>\<open>event_generator\<close> is the list of chunks it
  yields together with the exception that ended it, if any.
\<close>

datatype error = IndexError | ValueError | WorkflowError string

text \<open>
  Python list indexing \<^verbatim>\<open>xs[i]\<close>: an index below zero counts from the end, an index
  outside the list raises \<^verbatim>\<open>IndexError\<close>.
\<close>

definition py_index :: "'a list \<Rightarrow> int \<Rightarrow> error + 'a" where
  "py_index xs i =
     (if 0 \<le> i \<and> i < int (length xs) then Inr (xs ! nat i)
      else if i < 0 \<and> - int (length xs) \<le> i then Inr (xs ! nat (int (length xs) + i))
      else Inl IndexError)"

text \<open>\<^verbatim>\<open>Message\<close> and \<^verbatim>\<open>RunAgentInput\<close> of the protocol library, with the fields the endpoint reads.\<close>

record message =
  role :: string
  content :: string

record run_agent_input =
  thread_id :: string
  run_id :: string
  messages :: "message list"

text \<open>The LangChain messages exchanged with the graph; both classes carry a \<^verbatim>\<open>content\<close>.\<close>

datatype base_message = HumanMessage (msg_content: string) | AIMessage (msg_content: string)

text \<open>
  The per-run state object. The class \<^verbatim>\<open>ResearchState\<close> lives in the state module of the
  package; the endpoint constructs it from \<^verbatim>\<open>message_id\<close>, \<^verbatim>\<open>query\<close> and the
  \<^verbatim>\<open>event_emitter\<close> callback. The callback is a closure over the generator's list
  \<^verbatim>\<open>emitted_events\<close>; here that list is passed explicitly to every operation that can
  reach the callback.
\<close>

record research_state =
  state_message_id :: string
  state_query :: string
  in_progress :: bool

datatype EventType =
    RUN_STARTED | RUN_FINISHED
  | TEXT_MESSAGE_START | TEXT_MESSAGE_CONTENT | TEXT_MESSAGE_END
  | STATE_SNAPSHOT

text \<open>
  The protocol events, each with the \<^verbatim>\<open>type=\<close> argument the code passes and then its own
  fields in the order of the keyword arguments.
\<close>

datatype event =
    RunStartedEvent EventType string string
  | RunFinishedEvent EventType string string
  | TextMessageStartEvent EventType string string
  | TextMessageContentEvent EventType string string
  | TextMessageEndEvent EventType string
  | StateSnapshotEvent EventType research_state

fun type_of :: "event \<Rightarrow> EventType" where
  "type_of (RunStartedEvent t _ _) = t"
| "type_of (RunFinishedEvent t _ _) = t"
| "type_of (TextMessageStartEvent t _ _) = t"
| "type_of (TextMessageContentEvent t _ _) = t"
| "type_of (TextMessageEndEvent t _) = t"
| "type_of (StateSnapshotEvent t _) = t"

text \<open>The \<^verbatim>\<open>message_id\<close> field of the three text-message events.\<close>

fun message_id_of :: "event \<Rightarrow> string option" where
  "message_id_of (TextMessageStartEvent _ m _) = Some m"
| "message_id_of (TextMessageContentEvent _ m _) = Some m"
| "message_id_of (TextMessageEndEvent _ m) = Some m"
| "message_id_of _ = None"

text \<open>What the generator produced: the chunks yielded, in order, and the exception that ended it.\<close>

record 'c stream =
  yielded :: "'c list"
  raised :: "error option"

section \<open>The event sink\<close>

text \<open>
  \<^verbatim>\<open>event_emitter\<close> (main.py, lines 69-71) appends one encoded event to
  \<^verbatim>\<open>emitted_events\<close>.
\<close>

definition event_emitter :: "'c \<Rightarrow> 'c list \<Rightarrow> 'c list" where
  "event_emitter encoded_event emitted_events = emitted_events @ [encoded_event]"

text \<open>The loop \<^verbatim>\<open>for event in emitted_events: yield event\<close>: the chunks it yields.\<close>

fun yield_each :: "'c list \<Rightarrow> 'c list" where
  "yield_each [] = []"
| "yield_each (event # rest) = event # yield_each rest"

text \<open>
  A drain (lines 84-86 and 97-99): the loop, then \<^verbatim>\<open>emitted_events.clear()\<close>. The result
  is the chunks yielded and the list afterwards.
\<close>

definition drain :: "'c list \<Rightarrow> 'c list \<times> 'c list" where
  "drain emitted_events = (yield_each emitted_events, [])"

text \<open>Several calls of the callback in a row, as a workflow makes them.\<close>

definition emit_all :: "'c list \<Rightarrow> 'c list \<Rightarrow> 'c list" where
  "emit_all chunks emitted_events = foldl (\<lambda>buf c. event_emitter c buf) emitted_events chunks"


text \<open>
  A whole drain under interference: the loop, then \<^verbatim>\<open>emitted_events.clear()\<close>. Between
  the loop finding the list exhausted and the call of \<^verbatim>\<open>clear\<close> the generator does not
  suspend, so a cooperative scheduler runs nothing there; a preemptive one can, and
  \<open>before_clear\<close> is what it appends at that point. The source takes no lock around the
  two statements. The arrivals that found the loop over are appended after the drain.
\<close>



section \<open>The run state\<close>

text \<open>
  Modelled from the spec: the constructor of \<^verbatim>\<open>ResearchState\<close> (state module, not among
  the sources). The spec's \<open>new(identity, query, sink)\<close> stores its arguments; the progress
  flag starts cleared, the workflow node being the one that sets it.
\<close>

definition ResearchState :: "string \<Rightarrow> string \<Rightarrow> research_state" where
  "ResearchState message_id query =
     \<lparr>state_message_id = message_id, state_query = query, in_progress = False\<rparr>"

text \<open>
  Modelled from the spec: \<^verbatim>\<open>ResearchState.set_in_progress\<close> (state module, not among the
  sources), "pure state mutation, has no direct protocol effect by itself".
\<close>

definition set_in_progress :: "bool \<Rightarrow> research_state \<Rightarrow> research_state" where
  "set_in_progress flag st = st\<lparr>in_progress := flag\<rparr>"

text \<open>
  Modelled from the spec: \<^verbatim>\<open>ResearchState.emit_snapshot\<close> (state module, not among the
  sources). It "encodes the current observable state ... as a StateSnapshot event via
  EventEncoder and appends the result to the sink. Side effect: one append to the sink."
\<close>

definition emit_snapshot :: "(event \<Rightarrow> 'c) \<Rightarrow> research_state \<Rightarrow> 'c list \<Rightarrow> 'c list" where
  "emit_snapshot encode st emitted_events =
     event_emitter (encode (StateSnapshotEvent STATE_SNAPSHOT st)) emitted_events"

section \<open>The event generator\<close>

text \<open>
  A compiled graph as the endpoint uses it: \<^verbatim>\<open>build_research_graph(research_state)\<close>
  followed by \<^verbatim>\<open>graph.invoke(messages)\<close>. The call either raises or returns a list of
  messages, and on the way it may call the state's callback; the second component is the
  chunks passed to the callback, in call order. The graph holds the callback only, so it
  can append to \<^verbatim>\<open>emitted_events\<close> but neither read nor clear it.
\<close>

type_synonym 'c graph = "base_message list \<Rightarrow> (error + base_message list) \<times> 'c list"

text \<open>
  The constructor call \<^verbatim>\<open>TextMessageContentEvent(type=..., message_id=..., delta=...)\<close>. The
  event classes belong to the protocol library. Some of its releases validate \<^verbatim>\<open>delta\<close>
  and raise on the empty string, others accept it, and the sources pin no release:
  \<open>strict_delta\<close> says whether the release in use validates.
\<close>

definition make_text_message_content :: "bool \<Rightarrow> EventType \<Rightarrow> string \<Rightarrow> string \<Rightarrow> error + event" where
  "make_text_message_content strict_delta t message_id delta =
     (if strict_delta \<and> delta = [] then Inl ValueError
      else Inr (TextMessageContentEvent t message_id delta))"

text \<open>
  \<^verbatim>\<open>event_generator\<close> (main.py, lines 44-143). \<open>encode\<close> is \<^verbatim>\<open>EventEncoder().encode\<close> of
  the protocol library, \<open>message_id\<close> the value of \<^verbatim>\<open>str(uuid.uuid4())\<close> drawn for the run,
  \<open>build_research_graph\<close> the graph builder of the agent module. The \<^verbatim>\<open>print\<close> calls
  are left out. Of the event constructors only that of the content event can reject
  what the generator passes it: the others receive identifiers and the literal role.
\<close>

definition event_generator ::
  "bool \<Rightarrow> (event \<Rightarrow> 'c) \<Rightarrow> run_agent_input \<Rightarrow> string \<Rightarrow> (research_state \<Rightarrow> 'c graph) \<Rightarrow>
     'c stream"
where
  "event_generator strict_delta encode input_data message_id build_research_graph =
     (case py_index (messages input_data) (- 1) of
        Inl err \<Rightarrow> \<lparr>yielded = [], raised = Some err\<rparr>
      | Inr last_message \<Rightarrow>
          (let query = content last_message;
               out1 = [encode (RunStartedEvent RUN_STARTED (thread_id input_data) (run_id input_data))];
               emitted0 = [];
               research_state = ResearchState message_id query;
               emitted1 = emit_snapshot encode research_state emitted0;
               (flushed1, emitted2) = drain emitted1;
               out2 = out1 @ flushed1;
               graph = build_research_graph research_state;
               (result, appended) = graph [HumanMessage query];
               emitted3 = emit_all appended emitted2
           in case result of
                Inl err \<Rightarrow> \<lparr>yielded = out2, raised = Some err\<rparr>
              | Inr result_list \<Rightarrow>
                  (let (flushed2, emitted4) = drain emitted3;
                       out3 = out2 @ flushed2
                   in case py_index result_list 0 of
                        Inl err \<Rightarrow> \<lparr>yielded = out3, raised = Some err\<rparr>
                      | Inr report_item \<Rightarrow>
                          (let report_content = msg_content report_item;
                               out4 = out3 @
                                 [encode (TextMessageStartEvent TEXT_MESSAGE_START message_id ''assistant'')]
                           in case make_text_message_content strict_delta TEXT_MESSAGE_CONTENT
                                     message_id report_content of
                                Inl err \<Rightarrow> \<lparr>yielded = out4, raised = Some err\<rparr>
                              | Inr content_event \<Rightarrow>
                                  \<lparr>yielded = out4 @
                                     [encode content_event,
                                      encode (TextMessageEndEvent TEXT_MESSAGE_END message_id),
                                      encode (RunFinishedEvent RUN_FINISHED (thread_id input_data) (run_id input_data))],
                                   raised = None\<rparr>))))"

section \<open>The workflow node\<close>

text \<open>
  The two helpers of \<^verbatim>\<open>research_node\<close>, \<^verbatim>\<open>web_search\<close> and
  \<^verbatim>\<open>create_detailed_report\<close>, are parameters. Each receives the optional state, may
  raise, and may mutate the state object it was given: the second component of its result
  is that mutation, applied to the object when there is one. The object is the state's
  fields together with the list behind its callback.
\<close>

type_synonym 'c state_ref = "research_state \<times> 'c list"

type_synonym ('a, 'b, 'c) helper =
  "'a \<Rightarrow> 'c state_ref option \<Rightarrow> (error + 'b) \<times> ('c state_ref \<Rightarrow> 'c state_ref)"

text \<open>
  \<^verbatim>\<open>research_node(messages, state)\<close> (research.py, lines 13-45); the parameter
  \<^verbatim>\<open>messages\<close> is \<open>msgs\<close> here. The result is what the call returns or raises, and the
  state object afterwards. \<^verbatim>\<open>if state:\<close> is the test against \<^verbatim>\<open>None\<close>, a state object
  being truthy.
\<close>

definition research_node ::
  "(string, 'r, 'c) helper \<Rightarrow> ('r, string, 'c) helper \<Rightarrow> base_message list \<Rightarrow>
     'c state_ref option \<Rightarrow> (error + base_message list) \<times> 'c state_ref option"
where
  "research_node web_search create_detailed_report msgs state =
     (case py_index msgs (- 1) of
        Inl err \<Rightarrow> (Inl err, state)
      | Inr last_message \<Rightarrow>
          (let query = msg_content last_message;
               state1 = (if state \<noteq> None
                         then map_option (\<lambda>(st, buf). (set_in_progress True st, buf)) state
                         else state)
           in case web_search query state1 of
                (Inl err, mutation) \<Rightarrow> (Inl err, map_option mutation state1)
              | (Inr search_results, mutation) \<Rightarrow>
                  (let state2 = map_option mutation state1
                   in case create_detailed_report search_results state2 of
                        (Inl err, mutation') \<Rightarrow> (Inl err, map_option mutation' state2)
                      | (Inr report, mutation') \<Rightarrow>
                          (Inr [AIMessage report], map_option mutation' state2))))"

section \<open>Concrete runs\<close>

text \<open>An encoder that leaves the event as it is, for evaluating concrete runs.\<close>

definition plain_encoder :: "event \<Rightarrow> event" where
  "plain_encoder e = e"

definition climate_input :: run_agent_input where
  "climate_input =
     \<lparr>thread_id = ''thread-1'', run_id = ''run-1'',
      messages = [\<lparr>role = ''user'', content = ''climate change impacts''\<rparr>]\<rparr>"

text \<open>A graph that returns the report and never calls the callback.\<close>

definition climate_graph :: "research_state \<Rightarrow> event graph" where
  "climate_graph st msgs = (Inr [AIMessage ''Climate change causes rising sea levels...''], [])"

text \<open>A graph that marks the state in progress, emits one snapshot, and returns a report.\<close>

definition progress_graph :: "research_state \<Rightarrow> event graph" where
  "progress_graph st msgs =
     (Inr [AIMessage (''Report on '' @ msg_content (last msgs))],
      emit_snapshot plain_encoder (set_in_progress True st) [])"

text \<open>A graph that emits one snapshot and then raises.\<close>

definition failing_graph :: "research_state \<Rightarrow> event graph" where
  "failing_graph st msgs =
     (Inl (WorkflowError ''search failed''), emit_snapshot plain_encoder st [])"

text \<open>A graph that returns an empty report.\<close>

definition blank_graph :: "research_state \<Rightarrow> event graph" where
  "blank_graph st msgs = (Inr [AIMessage []], [])"

text \<open>A request of three messages, and the same conversation as the node receives it.\<close>

definition conversation_input :: run_agent_input where
  "conversation_input =
     \<lparr>thread_id = ''thread-2'', run_id = ''run-2'',
      messages = [\<lparr>role = ''user'', content = ''first question''\<rparr>,
                  \<lparr>role = ''assistant'', content = ''an answer''\<rparr>,
                  \<lparr>role = ''user'', content = ''last question''\<rparr>]\<rparr>"

definition conversation :: "base_message list" where
  "conversation =
     [HumanMessage ''first question'', AIMessage ''an answer'', HumanMessage ''last question'']"

definition empty_input :: run_agent_input where
  "empty_input = \<lparr>thread_id = ''thread-1'', run_id = ''run-1'', messages = []\<rparr>"

text \<open>Stand-ins for the two helpers of the workflow node, each touching the state it is given.\<close>

definition demo_web_search :: "(string, string list, event) helper" where
  "demo_web_search query state =
     (Inr [''result for '' @ query], \<lambda>(st, buf). (st, emit_snapshot plain_encoder st buf))"

definition demo_create_detailed_report :: "(string list, string, event) helper" where
  "demo_create_detailed_report search_results state =
     (Inr (concat search_results),
      \<lambda>(st, buf). (set_in_progress False st,
                    emit_snapshot plain_encoder (set_in_progress False st) buf))"

text \<open>How many events of one type a sequence holds.\<close>

definition count_type :: "EventType \<Rightarrow> event list \<Rightarrow> nat" where
  "count_type t evs = length (filter (\<lambda>e. type_of e = t) evs)"

section \<open>Basic facts\<close>

lemma yield_each_id: "yield_each xs = xs"
  by (induction xs) simp_all

lemma emit_all_append: "emit_all chunks buf = buf @ chunks"
  unfolding emit_all_def
  by (induction chunks arbitrary: buf) (simp_all add: event_emitter_def)

lemma py_index_last: "py_index xs (- 1) = (if xs = [] then Inl IndexError else Inr (last xs))"
proof (cases xs rule: rev_cases)
  case Nil
  then show ?thesis by (simp add: py_index_def)
next
  case (snoc ys y)
  have "nat (int (length (ys @ [y])) + (- 1)) = length ys" by simp
  then have "(ys @ [y]) ! nat (int (length (ys @ [y])) + (- 1)) = y" by simp
  moreover have "- int (length (ys @ [y])) \<le> - 1" by simp
  ultimately have "py_index (ys @ [y]) (- 1) = Inr y"
    unfolding py_index_def by simp
  with snoc show ?thesis by simp
qed

lemma py_index_first: "py_index xs 0 = (case xs of [] \<Rightarrow> Inl IndexError | x # _ \<Rightarrow> Inr x)"
  by (cases xs) (simp_all add: py_index_def)

subsection \<open>The drain loop under arrivals\<close>




subsection \<open>The five ways a run can go\<close>

text \<open>
  The generator is straight-line code with four exits before its last yield: the request
  has no message, the graph raises, the graph returns an empty list, the content event
  rejects the report. The lemmas below give the stream for each exit and for the run that
  reaches the end.
\<close>

lemma event_generator_no_messages:
  "messages input_data = [] \<Longrightarrow>
   event_generator strict_delta encode input_data message_id build_research_graph =
     \<lparr>yielded = [], raised = Some IndexError\<rparr>"
  by (simp add: event_generator_def py_index_last)

lemma event_generator_raises:
  assumes "messages input_data \<noteq> []"
    and "build_research_graph (ResearchState message_id (content (last (messages input_data))))
           [HumanMessage (content (last (messages input_data)))] = (Inl err, appended)"
  shows "event_generator strict_delta encode input_data message_id build_research_graph =
     \<lparr>yielded =
        [encode (RunStartedEvent RUN_STARTED (thread_id input_data) (run_id input_data)),
         encode (StateSnapshotEvent STATE_SNAPSHOT
           (ResearchState message_id (content (last (messages input_data)))))],
      raised = Some err\<rparr>"
  using assms
  by (simp add: event_generator_def py_index_last drain_def yield_each_id
      emit_snapshot_def event_emitter_def Let_def)

lemma event_generator_no_item:
  assumes "messages input_data \<noteq> []"
    and "build_research_graph (ResearchState message_id (content (last (messages input_data))))
           [HumanMessage (content (last (messages input_data)))] = (Inr [], appended)"
  shows "event_generator strict_delta encode input_data message_id build_research_graph =
     \<lparr>yielded =
        [encode (RunStartedEvent RUN_STARTED (thread_id input_data) (run_id input_data)),
         encode (StateSnapshotEvent STATE_SNAPSHOT
           (ResearchState message_id (content (last (messages input_data)))))] @ appended,
      raised = Some IndexError\<rparr>"
  using assms
  by (simp add: event_generator_def py_index_last py_index_first drain_def yield_each_id
      emit_all_append emit_snapshot_def event_emitter_def Let_def)

lemma event_generator_rejects:
  assumes "messages input_data \<noteq> []"
    and "build_research_graph (ResearchState message_id (content (last (messages input_data))))
           [HumanMessage (content (last (messages input_data)))] =
         (Inr (report_item # rest), appended)"
    and "strict_delta" and "msg_content report_item = []"
  shows "event_generator strict_delta encode input_data message_id build_research_graph =
     \<lparr>yielded =
        [encode (RunStartedEvent RUN_STARTED (thread_id input_data) (run_id input_data)),
         encode (StateSnapshotEvent STATE_SNAPSHOT
           (ResearchState message_id (content (last (messages input_data)))))] @ appended @
        [encode (TextMessageStartEvent TEXT_MESSAGE_START message_id ''assistant'')],
      raised = Some ValueError\<rparr>"
  using assms
  by (simp add: event_generator_def py_index_last py_index_first drain_def yield_each_id
      emit_all_append emit_snapshot_def event_emitter_def make_text_message_content_def Let_def)

lemma event_generator_returns:
  assumes "messages input_data \<noteq> []"
    and "build_research_graph (ResearchState message_id (content (last (messages input_data))))
           [HumanMessage (content (last (messages input_data)))] =
         (Inr (report_item # rest), appended)"
    and "strict_delta \<longrightarrow> msg_content report_item \<noteq> []"
  shows "event_generator strict_delta encode input_data message_id build_research_graph =
     \<lparr>yielded =
        [encode (RunStartedEvent RUN_STARTED (thread_id input_data) (run_id input_data)),
         encode (StateSnapshotEvent STATE_SNAPSHOT
           (ResearchState message_id (content (last (messages input_data)))))] @ appended @
        [encode (TextMessageStartEvent TEXT_MESSAGE_START message_id ''assistant''),
         encode (TextMessageContentEvent TEXT_MESSAGE_CONTENT message_id (msg_content report_item)),
         encode (TextMessageEndEvent TEXT_MESSAGE_END message_id),
         encode (RunFinishedEvent RUN_FINISHED (thread_id input_data) (run_id input_data))],
      raised = None\<rparr>"
  using assms
  by (auto simp: event_generator_def py_index_last py_index_first drain_def yield_each_id
      emit_all_append emit_snapshot_def event_emitter_def make_text_message_content_def Let_def)

text \<open>
  A run that ends without an exception had a message to read, a graph that returned an
  item, and a report that the content event accepted.
\<close>

lemma completed_run:
  assumes "raised (event_generator strict_delta encode input_data message_id build_research_graph) = None"
  shows "messages input_data \<noteq> []
       \<and> (\<exists>report_item rest appended.
            build_research_graph (ResearchState message_id (content (last (messages input_data))))
              [HumanMessage (content (last (messages input_data)))] =
            (Inr (report_item # rest), appended)
            \<and> (strict_delta \<longrightarrow> msg_content report_item \<noteq> []))"
proof -
  let ?call = "build_research_graph (ResearchState message_id (content (last (messages input_data))))
      [HumanMessage (content (last (messages input_data)))]"
  have nonempty: "messages input_data \<noteq> []"
  proof
    assume "messages input_data = []"
    then have "raised (event_generator strict_delta encode input_data message_id build_research_graph) =
        Some IndexError"
      by (simp add: event_generator_no_messages)
    with assms show False by simp
  qed
  obtain result appended where call: "?call = (result, appended)"
    by (cases ?call)
  have "\<exists>report_item rest. result = Inr (report_item # rest)
      \<and> (strict_delta \<longrightarrow> msg_content report_item \<noteq> [])"
  proof (cases result)
    case (Inl err)
    with call have "?call = (Inl err, appended)" by simp
    from event_generator_raises [where build_research_graph = build_research_graph
        and encode = encode, OF nonempty this]
    have "raised (event_generator strict_delta encode input_data message_id build_research_graph) = Some err"
      by simp
    with assms show ?thesis by simp
  next
    case (Inr result_list)
    show ?thesis
    proof (cases result_list)
      case Nil
      with Inr call have "?call = (Inr [], appended)" by simp
      from event_generator_no_item [where build_research_graph = build_research_graph
          and encode = encode, OF nonempty this]
      have "raised (event_generator strict_delta encode input_data message_id build_research_graph) =
          Some IndexError"
        by simp
      with assms show ?thesis by simp
    next
      case (Cons report_item rest)
      have "strict_delta \<longrightarrow> msg_content report_item \<noteq> []"
      proof (intro impI notI)
        assume strict: "strict_delta" and blank: "msg_content report_item = []"
        from Cons Inr call have "?call = (Inr (report_item # rest), appended)" by simp
        from event_generator_rejects [where build_research_graph = build_research_graph
            and encode = encode, OF nonempty this strict blank]
        have "raised (event_generator strict_delta encode input_data message_id
            build_research_graph) = Some ValueError"
          by simp
        with assms show False by simp
      qed
      with Cons Inr show ?thesis by simp
    qed
  qed
  with call nonempty show ?thesis by auto
qed

subsection \<open>Three concrete runs\<close>

lemma climate_run:
  "event_generator False plain_encoder climate_input ''msg-1'' climate_graph =
     \<lparr>yielded =
        [RunStartedEvent RUN_STARTED ''thread-1'' ''run-1'',
         StateSnapshotEvent STATE_SNAPSHOT
           \<lparr>state_message_id = ''msg-1'', state_query = ''climate change impacts'',
            in_progress = False\<rparr>,
         TextMessageStartEvent TEXT_MESSAGE_START ''msg-1'' ''assistant'',
         TextMessageContentEvent TEXT_MESSAGE_CONTENT ''msg-1''
           ''Climate change causes rising sea levels...'',
         TextMessageEndEvent TEXT_MESSAGE_END ''msg-1'',
         RunFinishedEvent RUN_FINISHED ''thread-1'' ''run-1''],
      raised = None\<rparr>"
  by (simp add: event_generator_def py_index_def drain_def emit_all_append emit_snapshot_def
      event_emitter_def climate_input_def climate_graph_def plain_encoder_def ResearchState_def
      make_text_message_content_def)

lemma failing_run:
  "event_generator False plain_encoder climate_input ''msg-1'' failing_graph =
     \<lparr>yielded =
        [RunStartedEvent RUN_STARTED ''thread-1'' ''run-1'',
         StateSnapshotEvent STATE_SNAPSHOT
           \<lparr>state_message_id = ''msg-1'', state_query = ''climate change impacts'',
            in_progress = False\<rparr>],
      raised = Some (WorkflowError ''search failed'')\<rparr>"
  by (simp add: event_generator_def py_index_def drain_def emit_all_append emit_snapshot_def
      event_emitter_def climate_input_def failing_graph_def plain_encoder_def ResearchState_def)

lemma progress_call:
  "progress_graph (ResearchState ''msg-1'' (content (last (messages climate_input))))
     [HumanMessage (content (last (messages climate_input)))] =
   (Inr (AIMessage ''Report on climate change impacts'' # []),
    map plain_encoder
      [StateSnapshotEvent STATE_SNAPSHOT
         \<lparr>state_message_id = ''msg-1'', state_query = ''climate change impacts'',
          in_progress = True\<rparr>])"
  by (simp add: progress_graph_def climate_input_def ResearchState_def set_in_progress_def
      emit_snapshot_def event_emitter_def plain_encoder_def)

lemma progress_run:
  "event_generator False plain_encoder climate_input ''msg-1'' progress_graph =
     \<lparr>yielded =
        [RunStartedEvent RUN_STARTED ''thread-1'' ''run-1'',
         StateSnapshotEvent STATE_SNAPSHOT
           \<lparr>state_message_id = ''msg-1'', state_query = ''climate change impacts'',
            in_progress = False\<rparr>,
         StateSnapshotEvent STATE_SNAPSHOT
           \<lparr>state_message_id = ''msg-1'', state_query = ''climate change impacts'',
            in_progress = True\<rparr>,
         TextMessageStartEvent TEXT_MESSAGE_START ''msg-1'' ''assistant'',
         TextMessageContentEvent TEXT_MESSAGE_CONTENT ''msg-1''
           ''Report on climate change impacts'',
         TextMessageEndEvent TEXT_MESSAGE_END ''msg-1'',
         RunFinishedEvent RUN_FINISHED ''thread-1'' ''run-1''],
      raised = None\<rparr>"
  by (simp add: event_generator_def py_index_def drain_def emit_all_append emit_snapshot_def
      event_emitter_def climate_input_def progress_graph_def plain_encoder_def ResearchState_def
      set_in_progress_def make_text_message_content_def Let_def)

lemma progress_snapshots_only:
  "\<forall>e\<in>set [StateSnapshotEvent STATE_SNAPSHOT
      \<lparr>state_message_id = ''msg-1'', state_query = ''climate change impacts'',
       in_progress = True\<rparr>]. type_of e = STATE_SNAPSHOT"
  by simp

section \<open>Properties\<close>

text \<open>
  Throughout, the chunks a graph passes to the callback are taken to be encoded events,
  \<open>map encode workflow_events\<close>, and where a property counts events of a kind the graph
  is taken to emit state snapshots only: the lifecycle and text-message events belong to
  the generator.
\<close>

text \<open>
  C1. When the graph call returns its list (the report item first) and the content event
  accepts the report as its delta (the report is not empty, or the release of the protocol
  library in use does not validate), the stream is: the RunStarted event; then what the
  sink held at the two drains, namely the snapshot emitted before the call followed by the
  events the graph emitted during it, in the order of the appends; then TextMessageStart,
  TextMessageContent, TextMessageEnd; then RunFinished. The generator ends without an
  exception. RunStarted is the first event and occurs nowhere after it; RunFinished is the
  last and occurs nowhere before it.
\<close>

theorem run_event_order:
  assumes "messages input_data \<noteq> []"
    and "build_research_graph (ResearchState message_id (content (last (messages input_data))))
           [HumanMessage (content (last (messages input_data)))] =
         (Inr (report_item # rest), map encode workflow_events)"
    and "\<forall>e\<in>set workflow_events. type_of e = STATE_SNAPSHOT"
    and "strict_delta \<longrightarrow> msg_content report_item \<noteq> []"
  shows "let st = ResearchState message_id (content (last (messages input_data)));
             started = RunStartedEvent RUN_STARTED (thread_id input_data) (run_id input_data);
             buffered = StateSnapshotEvent STATE_SNAPSHOT st # workflow_events;
             text_message =
               [TextMessageStartEvent TEXT_MESSAGE_START message_id ''assistant'',
                TextMessageContentEvent TEXT_MESSAGE_CONTENT message_id (msg_content report_item),
                TextMessageEndEvent TEXT_MESSAGE_END message_id];
             finished = RunFinishedEvent RUN_FINISHED (thread_id input_data) (run_id input_data);
             evs = started # buffered @ text_message @ [finished]
         in event_generator strict_delta encode input_data message_id build_research_graph =
              \<lparr>yielded = map encode evs, raised = None\<rparr>
            \<and> map encode buffered =
                emit_all (map encode workflow_events) (emit_snapshot encode st [])
            \<and> hd evs = started \<and> last evs = finished
            \<and> (\<forall>e\<in>set (tl evs). type_of e \<noteq> RUN_STARTED)
            \<and> (\<forall>e\<in>set (butlast evs). type_of e \<noteq> RUN_FINISHED)"
proof -
  have gen: "event_generator strict_delta encode input_data message_id build_research_graph =
      \<lparr>yielded = map encode
         (RunStartedEvent RUN_STARTED (thread_id input_data) (run_id input_data) #
          (StateSnapshotEvent STATE_SNAPSHOT
             (ResearchState message_id (content (last (messages input_data)))) # workflow_events) @
          [TextMessageStartEvent TEXT_MESSAGE_START message_id ''assistant'',
           TextMessageContentEvent TEXT_MESSAGE_CONTENT message_id (msg_content report_item),
           TextMessageEndEvent TEXT_MESSAGE_END message_id] @
          [RunFinishedEvent RUN_FINISHED (thread_id input_data) (run_id input_data)]),
       raised = None\<rparr>"
    using event_generator_returns [where build_research_graph = build_research_graph
        and encode = encode and strict_delta = strict_delta, OF assms(1) assms(2) assms(4)]
    by simp
  have sink: "map encode (StateSnapshotEvent STATE_SNAPSHOT
        (ResearchState message_id (content (last (messages input_data)))) # workflow_events) =
      emit_all (map encode workflow_events)
        (emit_snapshot encode (ResearchState message_id (content (last (messages input_data)))) [])"
    by (simp add: emit_all_append emit_snapshot_def event_emitter_def)
  have inner: "\<forall>e\<in>set workflow_events. type_of e \<noteq> RUN_STARTED \<and> type_of e \<noteq> RUN_FINISHED"
    using assms(3) by simp
  show ?thesis
    unfolding Let_def
    apply (intro conjI)
         apply (rule gen)
        apply (rule sink)
       apply simp
      apply simp
     using inner apply simp
    using inner apply (simp add: butlast_append)
    done
qed

theorem run_event_order_witness:
  "messages climate_input \<noteq> []
   \<and> progress_graph (ResearchState ''msg-1'' (content (last (messages climate_input))))
         [HumanMessage (content (last (messages climate_input)))] =
       (Inr (AIMessage ''Report on climate change impacts'' # []),
        map plain_encoder
          [StateSnapshotEvent STATE_SNAPSHOT
             \<lparr>state_message_id = ''msg-1'', state_query = ''climate change impacts'',
              in_progress = True\<rparr>])
   \<and> msg_content (AIMessage ''Report on climate change impacts'') \<noteq> []
   \<and> event_generator True plain_encoder climate_input ''msg-1'' progress_graph =
       \<lparr>yielded =
          [RunStartedEvent RUN_STARTED ''thread-1'' ''run-1'',
           StateSnapshotEvent STATE_SNAPSHOT
             \<lparr>state_message_id = ''msg-1'', state_query = ''climate change impacts'',
              in_progress = False\<rparr>,
           StateSnapshotEvent STATE_SNAPSHOT
             \<lparr>state_message_id = ''msg-1'', state_query = ''climate change impacts'',
              in_progress = True\<rparr>,
           TextMessageStartEvent TEXT_MESSAGE_START ''msg-1'' ''assistant'',
           TextMessageContentEvent TEXT_MESSAGE_CONTENT ''msg-1''
             ''Report on climate change impacts'',
           TextMessageEndEvent TEXT_MESSAGE_END ''msg-1'',
           RunFinishedEvent RUN_FINISHED ''thread-1'' ''run-1''],
        raised = None\<rparr>"
proof -
  have m: "messages climate_input \<noteq> []"
    by (simp add: climate_input_def)
  have d: "True \<longrightarrow> msg_content (AIMessage ''Report on climate change impacts'') \<noteq> []"
    by simp
  show ?thesis
    using m progress_call run_event_order [where encode = plain_encoder
        and input_data = climate_input and message_id = "''msg-1''"
        and build_research_graph = progress_graph and strict_delta = True,
        OF m progress_call progress_snapshots_only d]
    by (simp add: Let_def plain_encoder_def climate_input_def ResearchState_def)
qed

text \<open>
  Without the condition on the report the sequence is not reached: with a release that
  validates the delta, a graph that returns normally with an empty report gives
  RunStarted, the snapshot and TextMessageStart, and then the generator ends with the
  constructor's error, before any TextMessageContent, TextMessageEnd or RunFinished.
\<close>

theorem run_event_order_counterexample:
  "blank_graph (ResearchState ''msg-1'' ''climate change impacts'')
     [HumanMessage ''climate change impacts''] = (Inr [AIMessage []], [])
   \<and> event_generator True plain_encoder climate_input ''msg-1'' blank_graph =
       \<lparr>yielded =
          [RunStartedEvent RUN_STARTED ''thread-1'' ''run-1'',
           StateSnapshotEvent STATE_SNAPSHOT
             \<lparr>state_message_id = ''msg-1'', state_query = ''climate change impacts'',
              in_progress = False\<rparr>,
           TextMessageStartEvent TEXT_MESSAGE_START ''msg-1'' ''assistant''],
        raised = Some ValueError\<rparr>
   \<and> count_type RUN_FINISHED
       (yielded (event_generator True plain_encoder climate_input ''msg-1'' blank_graph)) = 0"
  by (simp add: event_generator_def py_index_def drain_def emit_all_append emit_snapshot_def
      event_emitter_def climate_input_def blank_graph_def plain_encoder_def ResearchState_def
      make_text_message_content_def count_type_def)

text \<open>
  C2. For the single user message "climate change impacts" and a graph that returns
  "Climate change causes rising sea levels..." without calling the callback, the stream is
  RunStarted, the snapshot the generator itself emits before the call, TextMessageStart
  with role assistant, TextMessageContent with the report as delta, TextMessageEnd,
  RunFinished: six events, the second of them a state snapshot.
\<close>

theorem climate_scenario:
  assumes "messages input_data = [\<lparr>role = ''user'', content = ''climate change impacts''\<rparr>]"
    and "build_research_graph (ResearchState message_id ''climate change impacts'')
           [HumanMessage ''climate change impacts''] =
         (Inr [AIMessage ''Climate change causes rising sea levels...''], [])"
  shows "event_generator strict_delta encode input_data message_id build_research_graph =
     \<lparr>yielded = map encode
        [RunStartedEvent RUN_STARTED (thread_id input_data) (run_id input_data),
         StateSnapshotEvent STATE_SNAPSHOT (ResearchState message_id ''climate change impacts''),
         TextMessageStartEvent TEXT_MESSAGE_START message_id ''assistant'',
         TextMessageContentEvent TEXT_MESSAGE_CONTENT message_id
           ''Climate change causes rising sea levels...'',
         TextMessageEndEvent TEXT_MESSAGE_END message_id,
         RunFinishedEvent RUN_FINISHED (thread_id input_data) (run_id input_data)],
      raised = None\<rparr>"
proof -
  have nonempty: "messages input_data \<noteq> []"
    using assms(1) by simp
  have call: "build_research_graph (ResearchState message_id (content (last (messages input_data))))
      [HumanMessage (content (last (messages input_data)))] =
      (Inr (AIMessage ''Climate change causes rising sea levels...'' # []), [])"
    using assms by simp
  have accepted: "strict_delta \<longrightarrow>
      msg_content (AIMessage ''Climate change causes rising sea levels...'') \<noteq> []"
    by simp
  show ?thesis
    using event_generator_returns [where build_research_graph = build_research_graph
        and encode = encode and strict_delta = strict_delta, OF nonempty call accepted] assms(1)
    by simp
qed

theorem climate_scenario_witness:
  "messages climate_input = [\<lparr>role = ''user'', content = ''climate change impacts''\<rparr>]
   \<and> climate_graph (ResearchState ''msg-1'' ''climate change impacts'')
         [HumanMessage ''climate change impacts''] =
       (Inr [AIMessage ''Climate change causes rising sea levels...''], [])
   \<and> yielded (event_generator False plain_encoder climate_input ''msg-1'' climate_graph) =
       [RunStartedEvent RUN_STARTED ''thread-1'' ''run-1'',
        StateSnapshotEvent STATE_SNAPSHOT
          \<lparr>state_message_id = ''msg-1'', state_query = ''climate change impacts'',
           in_progress = False\<rparr>,
        TextMessageStartEvent TEXT_MESSAGE_START ''msg-1'' ''assistant'',
        TextMessageContentEvent TEXT_MESSAGE_CONTENT ''msg-1''
          ''Climate change causes rising sea levels...'',
        TextMessageEndEvent TEXT_MESSAGE_END ''msg-1'',
        RunFinishedEvent RUN_FINISHED ''thread-1'' ''run-1'']"
proof -
  have m: "messages climate_input = [\<lparr>role = ''user'', content = ''climate change impacts''\<rparr>]"
    by (simp add: climate_input_def)
  have c: "climate_graph (ResearchState ''msg-1'' ''climate change impacts'')
         [HumanMessage ''climate change impacts''] =
       (Inr [AIMessage ''Climate change causes rising sea levels...''], [])"
    by (simp add: climate_graph_def)
  show ?thesis
    using m c climate_scenario [where encode = plain_encoder and input_data = climate_input
        and message_id = "''msg-1''" and build_research_graph = climate_graph, OF m c]
    by (simp add: plain_encoder_def climate_input_def ResearchState_def)
qed

text \<open>
  The five-event sequence without a snapshot is not what this run yields: the stream
  differs from it and holds one state snapshot.
\<close>

theorem climate_scenario_counterexample:
  "yielded (event_generator False plain_encoder climate_input ''msg-1'' climate_graph) \<noteq>
     [RunStartedEvent RUN_STARTED ''thread-1'' ''run-1'',
      TextMessageStartEvent TEXT_MESSAGE_START ''msg-1'' ''assistant'',
      TextMessageContentEvent TEXT_MESSAGE_CONTENT ''msg-1''
        ''Climate change causes rising sea levels...'',
      TextMessageEndEvent TEXT_MESSAGE_END ''msg-1'',
      RunFinishedEvent RUN_FINISHED ''thread-1'' ''run-1'']
   \<and> count_type STATE_SNAPSHOT
       (yielded (event_generator False plain_encoder climate_input ''msg-1'' climate_graph)) = 1"
  by (simp add: climate_run count_type_def)

text \<open>
  C3. When the graph call raises, the exception leaves the generator: the stream is
  RunStarted and the snapshot flushed before the call, and it ends there with the graph's
  error. No RunFinished and no text-message event is yielded, and what the graph passed to
  the callback before raising is never flushed.
\<close>

theorem workflow_error_ends_stream:
  assumes "messages input_data \<noteq> []"
    and "fst (build_research_graph (ResearchState message_id (content (last (messages input_data))))
           [HumanMessage (content (last (messages input_data)))]) = Inl err"
  shows "event_generator strict_delta encode input_data message_id build_research_graph =
     \<lparr>yielded = map encode
        [RunStartedEvent RUN_STARTED (thread_id input_data) (run_id input_data),
         StateSnapshotEvent STATE_SNAPSHOT
           (ResearchState message_id (content (last (messages input_data))))],
      raised = Some err\<rparr>"
proof -
  obtain appended where "build_research_graph
      (ResearchState message_id (content (last (messages input_data))))
      [HumanMessage (content (last (messages input_data)))] = (Inl err, appended)"
    using assms(2) by (metis prod.collapse)
  from event_generator_raises [where build_research_graph = build_research_graph
      and encode = encode, OF assms(1) this]
  show ?thesis
    by simp
qed

theorem workflow_error_ends_stream_witness:
  "messages climate_input \<noteq> []
   \<and> fst (failing_graph (ResearchState ''msg-1'' (content (last (messages climate_input))))
           [HumanMessage (content (last (messages climate_input)))]) =
       Inl (WorkflowError ''search failed'')
   \<and> event_generator False plain_encoder climate_input ''msg-1'' failing_graph =
       \<lparr>yielded =
          [RunStartedEvent RUN_STARTED ''thread-1'' ''run-1'',
           StateSnapshotEvent STATE_SNAPSHOT
             \<lparr>state_message_id = ''msg-1'', state_query = ''climate change impacts'',
              in_progress = False\<rparr>],
        raised = Some (WorkflowError ''search failed'')\<rparr>"
proof -
  have m: "messages climate_input \<noteq> []"
    by (simp add: climate_input_def)
  have c: "fst (failing_graph (ResearchState ''msg-1'' (content (last (messages climate_input))))
           [HumanMessage (content (last (messages climate_input)))]) =
       Inl (WorkflowError ''search failed'')"
    by (simp add: failing_graph_def)
  show ?thesis
    using m c workflow_error_ends_stream [where encode = plain_encoder
        and input_data = climate_input and message_id = "''msg-1''"
        and build_research_graph = failing_graph, OF m c]
    by (simp add: plain_encoder_def climate_input_def ResearchState_def)
qed

text \<open>
  A run whose graph raises: the generator ends with the graph's error and the stream holds
  no RunFinished event.
\<close>

theorem workflow_error_counterexample:
  "fst (failing_graph (ResearchState ''msg-1'' ''climate change impacts'')
          [HumanMessage ''climate change impacts'']) = Inl (WorkflowError ''search failed'')
   \<and> raised (event_generator False plain_encoder climate_input ''msg-1'' failing_graph) =
       Some (WorkflowError ''search failed'')
   \<and> count_type RUN_FINISHED
       (yielded (event_generator False plain_encoder climate_input ''msg-1'' failing_graph)) = 0"
  by (simp add: failing_run count_type_def failing_graph_def)

text \<open>
  C4. In every run that ends without an exception the stream holds exactly one
  TextMessageStart and exactly one TextMessageEnd; the TextMessageContent lies after the
  start and before the end, none occurring up to the start or from the end on; and every
  text-message event carries the \<open>message_id\<close> drawn once for the run.
\<close>

theorem text_message_bracketing:
  assumes "raised (event_generator strict_delta encode input_data message_id build_research_graph) = None"
    and "snd (build_research_graph (ResearchState message_id (content (last (messages input_data))))
           [HumanMessage (content (last (messages input_data)))]) = map encode workflow_events"
    and "\<forall>e\<in>set workflow_events. type_of e = STATE_SNAPSHOT"
  shows "\<exists>report_item.
           (let before =
                  [RunStartedEvent RUN_STARTED (thread_id input_data) (run_id input_data),
                   StateSnapshotEvent STATE_SNAPSHOT
                     (ResearchState message_id (content (last (messages input_data))))]
                  @ workflow_events;
                started = TextMessageStartEvent TEXT_MESSAGE_START message_id ''assistant'';
                delta = TextMessageContentEvent TEXT_MESSAGE_CONTENT message_id
                          (msg_content report_item);
                ended = TextMessageEndEvent TEXT_MESSAGE_END message_id;
                after = [RunFinishedEvent RUN_FINISHED (thread_id input_data) (run_id input_data)];
                evs = before @ [started] @ [delta] @ [ended] @ after
            in yielded (event_generator strict_delta encode input_data message_id build_research_graph) =
                 map encode evs
               \<and> filter (\<lambda>e. type_of e = TEXT_MESSAGE_START) evs = [started]
               \<and> filter (\<lambda>e. type_of e = TEXT_MESSAGE_END) evs = [ended]
               \<and> filter (\<lambda>e. type_of e = TEXT_MESSAGE_CONTENT) (before @ [started]) = []
               \<and> filter (\<lambda>e. type_of e = TEXT_MESSAGE_CONTENT) ([ended] @ after) = []
               \<and> (\<forall>e\<in>set evs.
                     type_of e \<in> {TEXT_MESSAGE_START, TEXT_MESSAGE_CONTENT, TEXT_MESSAGE_END} \<longrightarrow>
                     message_id_of e = Some message_id))"
proof -
  from completed_run [OF assms(1)] obtain report_item rest appended
    where nonempty: "messages input_data \<noteq> []"
      and call: "build_research_graph
          (ResearchState message_id (content (last (messages input_data))))
          [HumanMessage (content (last (messages input_data)))] =
          (Inr (report_item # rest), appended)"
      and accepted: "strict_delta \<longrightarrow> msg_content report_item \<noteq> []"
    by blast
  have appended: "appended = map encode workflow_events"
    using assms(2) call by simp
  have gen: "yielded (event_generator strict_delta encode input_data message_id build_research_graph) =
      map encode
        (([RunStartedEvent RUN_STARTED (thread_id input_data) (run_id input_data),
           StateSnapshotEvent STATE_SNAPSHOT
             (ResearchState message_id (content (last (messages input_data))))]
          @ workflow_events) @
         [TextMessageStartEvent TEXT_MESSAGE_START message_id ''assistant''] @
         [TextMessageContentEvent TEXT_MESSAGE_CONTENT message_id (msg_content report_item)] @
         [TextMessageEndEvent TEXT_MESSAGE_END message_id] @
         [RunFinishedEvent RUN_FINISHED (thread_id input_data) (run_id input_data)])"
    using event_generator_returns [where build_research_graph = build_research_graph
        and encode = encode and strict_delta = strict_delta, OF nonempty call accepted]
    by (simp add: appended)
  have none: "filter (\<lambda>e. type_of e = t) workflow_events = []" if "t \<noteq> STATE_SNAPSHOT" for t
    using assms(3) that by (simp add: filter_empty_conv)
  have ids: "\<forall>e\<in>set workflow_events.
      type_of e \<in> {TEXT_MESSAGE_START, TEXT_MESSAGE_CONTENT, TEXT_MESSAGE_END} \<longrightarrow>
      message_id_of e = Some message_id"
    using assms(3) by simp
  show ?thesis
    apply (rule exI [of _ report_item])
    unfolding Let_def
    apply (intro conjI)
         apply (rule gen)
        apply (simp add: none)
       apply (simp add: none)
      apply (simp add: none)
     apply simp
    using ids apply simp
    done
qed

theorem text_message_bracketing_witness:
  "raised (event_generator False plain_encoder climate_input ''msg-1'' progress_graph) = None
   \<and> snd (progress_graph (ResearchState ''msg-1'' (content (last (messages climate_input))))
           [HumanMessage (content (last (messages climate_input)))]) =
       map plain_encoder
         [StateSnapshotEvent STATE_SNAPSHOT
            \<lparr>state_message_id = ''msg-1'', state_query = ''climate change impacts'',
             in_progress = True\<rparr>]
   \<and> (\<exists>report_item.
         filter (\<lambda>e. type_of e = TEXT_MESSAGE_START)
           (yielded (event_generator False plain_encoder climate_input ''msg-1'' progress_graph)) =
         [TextMessageStartEvent TEXT_MESSAGE_START ''msg-1'' ''assistant'']
       \<and> filter (\<lambda>e. type_of e = TEXT_MESSAGE_CONTENT)
           (yielded (event_generator False plain_encoder climate_input ''msg-1'' progress_graph)) =
         [TextMessageContentEvent TEXT_MESSAGE_CONTENT ''msg-1'' (msg_content report_item)]
       \<and> filter (\<lambda>e. type_of e = TEXT_MESSAGE_END)
           (yielded (event_generator False plain_encoder climate_input ''msg-1'' progress_graph)) =
         [TextMessageEndEvent TEXT_MESSAGE_END ''msg-1''])"
proof -
  have r: "raised (event_generator False plain_encoder climate_input ''msg-1'' progress_graph) = None"
    by (simp add: progress_run)
  have c: "snd (progress_graph (ResearchState ''msg-1'' (content (last (messages climate_input))))
           [HumanMessage (content (last (messages climate_input)))]) =
       map plain_encoder
         [StateSnapshotEvent STATE_SNAPSHOT
            \<lparr>state_message_id = ''msg-1'', state_query = ''climate change impacts'',
             in_progress = True\<rparr>]"
    by (simp add: progress_call)
  from text_message_bracketing [where encode = plain_encoder
      and input_data = climate_input and message_id = "''msg-1''"
      and build_research_graph = progress_graph, OF r c progress_snapshots_only]
  obtain report_item where
    "yielded (event_generator False plain_encoder climate_input ''msg-1'' progress_graph) =
       [RunStartedEvent RUN_STARTED (thread_id climate_input) (run_id climate_input),
        StateSnapshotEvent STATE_SNAPSHOT
          (ResearchState ''msg-1'' (content (last (messages climate_input)))),
        StateSnapshotEvent STATE_SNAPSHOT
          \<lparr>state_message_id = ''msg-1'', state_query = ''climate change impacts'',
           in_progress = True\<rparr>,
        TextMessageStartEvent TEXT_MESSAGE_START ''msg-1'' ''assistant'',
        TextMessageContentEvent TEXT_MESSAGE_CONTENT ''msg-1'' (msg_content report_item),
        TextMessageEndEvent TEXT_MESSAGE_END ''msg-1'',
        RunFinishedEvent RUN_FINISHED (thread_id climate_input) (run_id climate_input)]"
    by (auto simp: Let_def plain_encoder_def)
  then have "filter (\<lambda>e. type_of e = TEXT_MESSAGE_START)
           (yielded (event_generator False plain_encoder climate_input ''msg-1'' progress_graph)) =
         [TextMessageStartEvent TEXT_MESSAGE_START ''msg-1'' ''assistant'']
       \<and> filter (\<lambda>e. type_of e = TEXT_MESSAGE_CONTENT)
           (yielded (event_generator False plain_encoder climate_input ''msg-1'' progress_graph)) =
         [TextMessageContentEvent TEXT_MESSAGE_CONTENT ''msg-1'' (msg_content report_item)]
       \<and> filter (\<lambda>e. type_of e = TEXT_MESSAGE_END)
           (yielded (event_generator False plain_encoder climate_input ''msg-1'' progress_graph)) =
         [TextMessageEndEvent TEXT_MESSAGE_END ''msg-1'']"
    by simp
  with r c show ?thesis
    by blast
qed

text \<open>
  A run whose graph raises: its stream has neither a TextMessageStart nor a
  TextMessageEnd, so "exactly one of each in every run" fails.
\<close>

theorem text_message_counterexample:
  "raised (event_generator False plain_encoder climate_input ''msg-1'' failing_graph) =
     Some (WorkflowError ''search failed'')
   \<and> count_type TEXT_MESSAGE_START
       (yielded (event_generator False plain_encoder climate_input ''msg-1'' failing_graph)) = 0
   \<and> count_type TEXT_MESSAGE_END
       (yielded (event_generator False plain_encoder climate_input ''msg-1'' failing_graph)) = 0"
  by (simp add: failing_run count_type_def)

text \<open>
  C5. In every run that ends without an exception the graph returned a list with a first
  element, the stream holds exactly one TextMessageContent event, and its delta is the
  \<^verbatim>\<open>content\<close> of that first element, whole.
\<close>

theorem single_content_event:
  assumes "raised (event_generator strict_delta encode input_data message_id build_research_graph) = None"
    and "snd (build_research_graph (ResearchState message_id (content (last (messages input_data))))
           [HumanMessage (content (last (messages input_data)))]) = map encode workflow_events"
    and "\<forall>e\<in>set workflow_events. type_of e = STATE_SNAPSHOT"
  shows "\<exists>report_item rest.
           fst (build_research_graph (ResearchState message_id (content (last (messages input_data))))
             [HumanMessage (content (last (messages input_data)))]) = Inr (report_item # rest)
         \<and> (let evs =
                  [RunStartedEvent RUN_STARTED (thread_id input_data) (run_id input_data),
                   StateSnapshotEvent STATE_SNAPSHOT
                     (ResearchState message_id (content (last (messages input_data))))]
                  @ workflow_events @
                  [TextMessageStartEvent TEXT_MESSAGE_START message_id ''assistant'',
                   TextMessageContentEvent TEXT_MESSAGE_CONTENT message_id (msg_content report_item),
                   TextMessageEndEvent TEXT_MESSAGE_END message_id,
                   RunFinishedEvent RUN_FINISHED (thread_id input_data) (run_id input_data)]
             in yielded (event_generator strict_delta encode input_data message_id build_research_graph) =
                  map encode evs
                \<and> filter (\<lambda>e. type_of e = TEXT_MESSAGE_CONTENT) evs =
                  [TextMessageContentEvent TEXT_MESSAGE_CONTENT message_id (msg_content report_item)])"
proof -
  from completed_run [OF assms(1)] obtain report_item rest appended
    where nonempty: "messages input_data \<noteq> []"
      and call: "build_research_graph
          (ResearchState message_id (content (last (messages input_data))))
          [HumanMessage (content (last (messages input_data)))] =
          (Inr (report_item # rest), appended)"
      and accepted: "strict_delta \<longrightarrow> msg_content report_item \<noteq> []"
    by blast
  have appended: "appended = map encode workflow_events"
    using assms(2) call by simp
  have gen: "yielded (event_generator strict_delta encode input_data message_id build_research_graph) =
      map encode
        ([RunStartedEvent RUN_STARTED (thread_id input_data) (run_id input_data),
          StateSnapshotEvent STATE_SNAPSHOT
            (ResearchState message_id (content (last (messages input_data))))]
         @ workflow_events @
         [TextMessageStartEvent TEXT_MESSAGE_START message_id ''assistant'',
          TextMessageContentEvent TEXT_MESSAGE_CONTENT message_id (msg_content report_item),
          TextMessageEndEvent TEXT_MESSAGE_END message_id,
          RunFinishedEvent RUN_FINISHED (thread_id input_data) (run_id input_data)])"
    using event_generator_returns [where build_research_graph = build_research_graph
        and encode = encode and strict_delta = strict_delta, OF nonempty call accepted]
    by (simp add: appended)
  have none: "filter (\<lambda>e. type_of e = TEXT_MESSAGE_CONTENT) workflow_events = []"
    using assms(3) by (simp add: filter_empty_conv)
  have first: "fst (build_research_graph
      (ResearchState message_id (content (last (messages input_data))))
      [HumanMessage (content (last (messages input_data)))]) = Inr (report_item # rest)"
    using call by simp
  show ?thesis
    apply (rule exI [of _ report_item])
    apply (rule exI [of _ rest])
    unfolding Let_def
    apply (intro conjI)
      apply (rule first)
     apply (rule gen)
    apply (simp add: none)
    done
qed

theorem single_content_event_witness:
  "raised (event_generator False plain_encoder climate_input ''msg-1'' progress_graph) = None
   \<and> snd (progress_graph (ResearchState ''msg-1'' (content (last (messages climate_input))))
           [HumanMessage (content (last (messages climate_input)))]) =
       map plain_encoder
         [StateSnapshotEvent STATE_SNAPSHOT
            \<lparr>state_message_id = ''msg-1'', state_query = ''climate change impacts'',
             in_progress = True\<rparr>]
   \<and> (\<exists>report_item rest.
         fst (progress_graph (ResearchState ''msg-1'' (content (last (messages climate_input))))
           [HumanMessage (content (last (messages climate_input)))]) = Inr (report_item # rest)
       \<and> filter (\<lambda>e. type_of e = TEXT_MESSAGE_CONTENT)
           (yielded (event_generator False plain_encoder climate_input ''msg-1'' progress_graph)) =
         [TextMessageContentEvent TEXT_MESSAGE_CONTENT ''msg-1'' (msg_content report_item)])"
proof -
  have r: "raised (event_generator False plain_encoder climate_input ''msg-1'' progress_graph) = None"
    by (simp add: progress_run)
  have c: "snd (progress_graph (ResearchState ''msg-1'' (content (last (messages climate_input))))
           [HumanMessage (content (last (messages climate_input)))]) =
       map plain_encoder
         [StateSnapshotEvent STATE_SNAPSHOT
            \<lparr>state_message_id = ''msg-1'', state_query = ''climate change impacts'',
             in_progress = True\<rparr>]"
    by (simp add: progress_call)
  from single_content_event [where encode = plain_encoder
      and input_data = climate_input and message_id = "''msg-1''"
      and build_research_graph = progress_graph, OF r c progress_snapshots_only]
  obtain report_item rest where
    "fst (progress_graph (ResearchState ''msg-1'' (content (last (messages climate_input))))
       [HumanMessage (content (last (messages climate_input)))]) = Inr (report_item # rest)"
    and "filter (\<lambda>e. type_of e = TEXT_MESSAGE_CONTENT)
           (yielded (event_generator False plain_encoder climate_input ''msg-1'' progress_graph)) =
         [TextMessageContentEvent TEXT_MESSAGE_CONTENT ''msg-1'' (msg_content report_item)]"
    by (auto simp: Let_def plain_encoder_def)
  with r c show ?thesis
    by blast
qed

text \<open>
  C6. When the request has a message, the query of the run is the \<^verbatim>\<open>content\<close> of the
  last one, in the state handed to the graph and in the message the graph is invoked on:
  a graph that raises unless its state carries that query and its input is that one
  message gives the same stream as the graph itself, and a graph that answers with the
  query it finds in its state and in its input sends both back as the delta. The workflow
  node does the same with the messages it receives: a web search that raises on any other
  query than the \<^verbatim>\<open>content\<close> of the last message changes nothing, and with helpers that
  hand their argument through, the node returns that content as its report.
\<close>

theorem query_is_last_message_content:
  assumes "messages input_data \<noteq> []" and "msgs \<noteq> []"
  shows "event_generator strict_delta encode input_data message_id build_research_graph =
         event_generator strict_delta encode input_data message_id
           (\<lambda>st msgs.
              if state_query st = content (last (messages input_data))
                 \<and> msgs = [HumanMessage (content (last (messages input_data)))]
              then build_research_graph st msgs
              else (Inl (WorkflowError ''other query''), []))
       \<and> event_generator strict_delta encode input_data message_id
           (\<lambda>st msgs. (Inr [AIMessage (state_query st @ ''|'' @ concat (map msg_content msgs))], [])) =
         \<lparr>yielded = map encode
            [RunStartedEvent RUN_STARTED (thread_id input_data) (run_id input_data),
             StateSnapshotEvent STATE_SNAPSHOT
               (ResearchState message_id (content (last (messages input_data)))),
             TextMessageStartEvent TEXT_MESSAGE_START message_id ''assistant'',
             TextMessageContentEvent TEXT_MESSAGE_CONTENT message_id
               (content (last (messages input_data)) @ ''|'' @
                content (last (messages input_data))),
             TextMessageEndEvent TEXT_MESSAGE_END message_id,
             RunFinishedEvent RUN_FINISHED (thread_id input_data) (run_id input_data)],
          raised = None\<rparr>
       \<and> research_node web_search create_detailed_report msgs state =
         research_node
           (\<lambda>query st. if query = msg_content (last msgs)
                        then web_search query st
                        else (Inl (WorkflowError ''other query''), \<lambda>ref. ref))
           create_detailed_report msgs state
       \<and> research_node (\<lambda>query st. (Inr query, \<lambda>ref. ref))
           (\<lambda>search_results st. (Inr search_results, \<lambda>ref. ref)) msgs state =
         (Inr [AIMessage (msg_content (last msgs))],
          map_option (\<lambda>(st, buf). (set_in_progress True st, buf)) state)"
proof (intro conjI)
  show "event_generator strict_delta encode input_data message_id build_research_graph =
         event_generator strict_delta encode input_data message_id
           (\<lambda>st msgs.
              if state_query st = content (last (messages input_data))
                 \<and> msgs = [HumanMessage (content (last (messages input_data)))]
              then build_research_graph st msgs
              else (Inl (WorkflowError ''other query''), []))"
    using assms(1)
    by (simp add: event_generator_def py_index_last Let_def ResearchState_def)
next
  show "event_generator strict_delta encode input_data message_id
           (\<lambda>st msgs. (Inr [AIMessage (state_query st @ ''|'' @ concat (map msg_content msgs))], [])) =
         \<lparr>yielded = map encode
            [RunStartedEvent RUN_STARTED (thread_id input_data) (run_id input_data),
             StateSnapshotEvent STATE_SNAPSHOT
               (ResearchState message_id (content (last (messages input_data)))),
             TextMessageStartEvent TEXT_MESSAGE_START message_id ''assistant'',
             TextMessageContentEvent TEXT_MESSAGE_CONTENT message_id
               (content (last (messages input_data)) @ ''|'' @
                content (last (messages input_data))),
             TextMessageEndEvent TEXT_MESSAGE_END message_id,
             RunFinishedEvent RUN_FINISHED (thread_id input_data) (run_id input_data)],
          raised = None\<rparr>"
    using assms(1)
    by (simp add: event_generator_def py_index_last py_index_first drain_def yield_each_id
        emit_all_append emit_snapshot_def event_emitter_def make_text_message_content_def
        Let_def ResearchState_def)
next
  show "research_node web_search create_detailed_report msgs state =
         research_node
           (\<lambda>query st. if query = msg_content (last msgs)
                        then web_search query st
                        else (Inl (WorkflowError ''other query''), \<lambda>ref. ref))
           create_detailed_report msgs state"
    using assms(2)
    by (simp add: research_node_def py_index_last Let_def)
next
  show "research_node (\<lambda>query st. (Inr query, \<lambda>ref. ref))
           (\<lambda>search_results st. (Inr search_results, \<lambda>ref. ref)) msgs state =
         (Inr [AIMessage (msg_content (last msgs))],
          map_option (\<lambda>(st, buf). (set_in_progress True st, buf)) state)"
    using assms(2)
    by (cases state) (simp_all add: research_node_def py_index_last Let_def option.map_ident)
qed

theorem query_is_last_message_content_witness:
  "messages conversation_input \<noteq> [] \<and> conversation \<noteq> []
   \<and> content (last (messages conversation_input)) = ''last question''
   \<and> msg_content (last conversation) = ''last question''
   \<and> yielded (event_generator True plain_encoder conversation_input ''msg-2''
         (\<lambda>st msgs. (Inr [AIMessage (state_query st @ ''|'' @ concat (map msg_content msgs))], []))) =
       [RunStartedEvent RUN_STARTED ''thread-2'' ''run-2'',
        StateSnapshotEvent STATE_SNAPSHOT
          \<lparr>state_message_id = ''msg-2'', state_query = ''last question'',
           in_progress = False\<rparr>,
        TextMessageStartEvent TEXT_MESSAGE_START ''msg-2'' ''assistant'',
        TextMessageContentEvent TEXT_MESSAGE_CONTENT ''msg-2'' ''last question|last question'',
        TextMessageEndEvent TEXT_MESSAGE_END ''msg-2'',
        RunFinishedEvent RUN_FINISHED ''thread-2'' ''run-2'']
   \<and> research_node (\<lambda>query st. (Inr query, \<lambda>ref. ref))
         (\<lambda>search_results st. (Inr search_results, \<lambda>ref. ref)) conversation
         (Some (ResearchState ''msg-2'' ''last question'', [] :: event list)) =
       (Inr [AIMessage ''last question''],
        Some (\<lparr>state_message_id = ''msg-2'', state_query = ''last question'',
               in_progress = True\<rparr>, []))"
proof -
  have m: "messages conversation_input \<noteq> []"
    by (simp add: conversation_input_def)
  have c: "conversation \<noteq> []"
    by (simp add: conversation_def)
  have q: "content (last (messages conversation_input)) = ''last question''"
    by (simp add: conversation_input_def)
  have l: "msg_content (last conversation) = ''last question''"
    by (simp add: conversation_def)
  note all = query_is_last_message_content [where encode = plain_encoder
      and input_data = conversation_input and message_id = "''msg-2''" and msgs = conversation
      and strict_delta = True, OF m c]
  have probe: "event_generator True plain_encoder conversation_input ''msg-2''
      (\<lambda>st msgs. (Inr [AIMessage (state_query st @ ''|'' @ concat (map msg_content msgs))], [])) =
      \<lparr>yielded = map plain_encoder
         [RunStartedEvent RUN_STARTED (thread_id conversation_input) (run_id conversation_input),
          StateSnapshotEvent STATE_SNAPSHOT
            (ResearchState ''msg-2'' (content (last (messages conversation_input)))),
          TextMessageStartEvent TEXT_MESSAGE_START ''msg-2'' ''assistant'',
          TextMessageContentEvent TEXT_MESSAGE_CONTENT ''msg-2''
            (content (last (messages conversation_input)) @ ''|'' @
             content (last (messages conversation_input))),
          TextMessageEndEvent TEXT_MESSAGE_END ''msg-2'',
          RunFinishedEvent RUN_FINISHED (thread_id conversation_input) (run_id conversation_input)],
       raised = None\<rparr>"
    by (rule all [THEN conjunct2, THEN conjunct1])
  have node: "research_node (\<lambda>query st. (Inr query, \<lambda>ref. ref))
      (\<lambda>search_results st. (Inr search_results, \<lambda>ref. ref)) conversation
      (Some (ResearchState ''msg-2'' ''last question'', [] :: event list)) =
      (Inr [AIMessage (msg_content (last conversation))],
       map_option (\<lambda>(st, buf). (set_in_progress True st, buf))
         (Some (ResearchState ''msg-2'' ''last question'', [] :: event list)))"
    by (rule all [THEN conjunct2, THEN conjunct2, THEN conjunct2])
  have ids: "thread_id conversation_input = ''thread-2''" "run_id conversation_input = ''run-2''"
    by (simp_all add: conversation_input_def)
  show ?thesis
    using m c q l probe node ids
    by (simp add: plain_encoder_def ResearchState_def set_in_progress_def)
qed

text \<open>
  C7. Draining is exhaustive, order-preserving and clearing. Whatever the list held at the
  last drain, after that drain the chunks \<open>a\<close>, \<open>b\<close>, \<open>c\<close> appended through the callback
  are yielded by the next drain as exactly \<open>[a, b, c]\<close>, the list is empty afterwards, and
  a further drain yields nothing. The same holds for any sequence of appended chunks.
\<close>

theorem drain_exhaustive_ordered_clearing:
  "drain (event_emitter c (event_emitter b (event_emitter a (snd (drain buf))))) = ([a, b, c], [])
   \<and> drain (emit_all chunks (snd (drain buf))) = (chunks, [])
   \<and> drain (snd (drain (emit_all chunks (snd (drain buf))))) = ([], [])"
  by (simp add: drain_def event_emitter_def emit_all_append yield_each_id)





text \<open>
  C9. When the request has no message, reading the last one raises \<^verbatim>\<open>IndexError\<close>
  before the first yield: the stream is empty, without even the RunStarted event.
\<close>

theorem no_messages_no_events:
  assumes "messages input_data = []"
  shows "event_generator strict_delta encode input_data message_id build_research_graph =
     \<lparr>yielded = [], raised = Some IndexError\<rparr>"
  using assms by (simp add: event_generator_def py_index_last)

theorem no_messages_no_events_witness:
  "messages empty_input = []
   \<and> event_generator False plain_encoder empty_input ''msg-1'' climate_graph =
       \<lparr>yielded = [], raised = Some IndexError\<rparr>"
proof -
  have m: "messages empty_input = []"
    by (simp add: empty_input_def)
  show ?thesis
    using m no_messages_no_events [where encode = plain_encoder and input_data = empty_input
        and message_id = "''msg-1''" and build_research_graph = climate_graph, OF m]
    by simp
qed

text \<open>
  C10. Called on a non-empty message list with \<^verbatim>\<open>state = None\<close>, the workflow node skips
  \<^verbatim>\<open>set_in_progress\<close>, hands \<^verbatim>\<open>None\<close> on to both helpers, and, when they return the search
  results and the report, returns a list of one element, the \<^verbatim>\<open>AIMessage\<close> whose content
  is that report. There is no state object afterwards either: nothing was set in progress
  and nothing was emitted through a state.
\<close>

theorem research_node_without_state:
  assumes "msgs \<noteq> []"
    and "fst (web_search (msg_content (last msgs)) None) = Inr search_results"
    and "fst (create_detailed_report search_results None) = Inr report"
  shows "research_node web_search create_detailed_report msgs None =
           (Inr [AIMessage report], None)"
proof -
  obtain mutation where search:
    "web_search (msg_content (last msgs)) None = (Inr search_results, mutation)"
    using assms(2) by (cases "web_search (msg_content (last msgs)) None") simp
  obtain mutation' where report:
    "create_detailed_report search_results None = (Inr report, mutation')"
    using assms(3) by (cases "create_detailed_report search_results None") simp
  show ?thesis
    using assms(1) search report
    by (simp add: research_node_def py_index_last)
qed

theorem research_node_without_state_witness:
  "[HumanMessage ''climate change impacts''] \<noteq> []
   \<and> fst (demo_web_search (msg_content (last [HumanMessage ''climate change impacts''])) None) =
       Inr [''result for climate change impacts'']
   \<and> fst (demo_create_detailed_report [''result for climate change impacts''] None) =
       Inr ''result for climate change impacts''
   \<and> research_node demo_web_search demo_create_detailed_report
         [HumanMessage ''climate change impacts''] None =
       (Inr [AIMessage ''result for climate change impacts''], None)"
proof -
  have m: "[HumanMessage ''climate change impacts''] \<noteq> []"
    by simp
  have w: "fst (demo_web_search (msg_content (last [HumanMessage ''climate change impacts''])) None) =
       Inr [''result for climate change impacts'']"
    by (simp add: demo_web_search_def)
  have r: "fst (demo_create_detailed_report [''result for climate change impacts''] None) =
       Inr ''result for climate change impacts''"
    by (simp add: demo_create_detailed_report_def)
  show ?thesis
    using w r research_node_without_state [where web_search = demo_web_search
        and create_detailed_report = demo_create_detailed_report, OF m w r]
    by simp
qed

end
